theory Spec2Isabelle
  imports Complex_Main
begin

section \<open>Configuration constants of index.py\<close>

definition WIDTH :: int where "WIDTH = 900"
definition HEIGHT :: int where "HEIGHT = 600"
definition AX_POS_THRESHOLD :: int where "AX_POS_THRESHOLD = 2000"
definition AX_NEG_THRESHOLD :: int where "AX_NEG_THRESHOLD = - 2000"
definition AY_POS_THRESHOLD :: int where "AY_POS_THRESHOLD = 2000"
definition AY_NEG_THRESHOLD :: int where "AY_NEG_THRESHOLD = - 2000"
definition SWITCH_DEBOUNCE :: real where "SWITCH_DEBOUNCE = 1 / 2"
definition SHAKE_THRESHOLD :: int where "SHAKE_THRESHOLD = 15000"
definition BALL_RADIUS :: int where "BALL_RADIUS = 25"
definition BALL_SPEED :: int where "BALL_SPEED = 5"
definition COIN_RADIUS :: int where "COIN_RADIUS = 15"
definition POWERUP_CHANCE :: real where "POWERUP_CHANCE = 18 / 100"
definition POWERUP_DURATION :: real where "POWERUP_DURATION = 6"
definition OBSTACLE_COUNT :: nat where "OBSTACLE_COUNT = 3"
definition GAME_DURATION :: real where "GAME_DURATION = 60"
definition QUEUE_MAXLEN :: nat where "QUEUE_MAXLEN = 100"

lemmas config_defs =
  WIDTH_def HEIGHT_def AX_POS_THRESHOLD_def AX_NEG_THRESHOLD_def AY_POS_THRESHOLD_def
  AY_NEG_THRESHOLD_def SWITCH_DEBOUNCE_def SHAKE_THRESHOLD_def BALL_RADIUS_def
  BALL_SPEED_def COIN_RADIUS_def POWERUP_CHANCE_def POWERUP_DURATION_def
  OBSTACLE_COUNT_def GAME_DURATION_def QUEUE_MAXLEN_def

section \<open>Python string primitives used by the parser\<close>

text \<open>
  A telemetry line is an ASCII string. \<open>is_space\<close> is Python's \<open>str.isspace\<close> on the
  ASCII range (tab to carriage return, the four separators 28 to 31, and the blank);
  \<open>strip\<close> is \<open>str.strip()\<close> and \<open>split_on\<close> is \<open>str.split(sep)\<close> for a one-character
  separator, which always yields at least one piece.
\<close>

definition is_space :: "char \<Rightarrow> bool" where
  "is_space c = (let n = (of_char c :: nat) in (9 \<le> n \<and> n \<le> 13) \<or> (28 \<le> n \<and> n \<le> 32))"

definition strip :: "string \<Rightarrow> string" where
  "strip s = rev (dropWhile is_space (rev (dropWhile is_space s)))"

fun split_on :: "char \<Rightarrow> string \<Rightarrow> string list" where
  "split_on c [] = [[]]"
| "split_on c (x # xs) =
     (if x = c then [] # split_on c xs
      else (case split_on c xs of
              [] \<Rightarrow> [[x]]
            | p # ps \<Rightarrow> (x # p) # ps))"

text \<open>
  \<open>py_int\<close> is Python's \<open>int(s)\<close> on an ASCII string: surrounding whitespace is
  skipped, one optional sign, then decimal digits in which single underscores may
  separate digits. \<open>None\<close> stands for the \<open>ValueError\<close> that the callers catch.
\<close>

definition is_digit :: "char \<Rightarrow> bool" where
  "is_digit c = (let n = (of_char c :: nat) in 48 \<le> n \<and> n \<le> 57)"

definition digit_val :: "char \<Rightarrow> nat" where
  "digit_val c = of_char c - 48"

fun parse_digits :: "nat \<Rightarrow> string \<Rightarrow> nat option" where
  "parse_digits acc [] = Some acc"
| "parse_digits acc [c] =
     (if is_digit c then Some (acc * 10 + digit_val c) else None)"
| "parse_digits acc (c # d # ds) =
     (if is_digit c then parse_digits (acc * 10 + digit_val c) (d # ds)
      else if c = CHR ''_'' \<and> is_digit d then parse_digits (acc * 10 + digit_val d) ds
      else None)"

definition parse_unsigned :: "string \<Rightarrow> nat option" where
  "parse_unsigned s =
     (case s of
        [] \<Rightarrow> None
      | c # cs \<Rightarrow> if is_digit c then parse_digits (digit_val c) cs else None)"

definition py_int :: "string \<Rightarrow> int option" where
  "py_int s =
     (case strip s of
        [] \<Rightarrow> None
      | c # cs \<Rightarrow>
          if c = CHR ''-'' then map_option (\<lambda>n. - int n) (parse_unsigned cs)
          else if c = CHR ''+'' then map_option int (parse_unsigned cs)
          else map_option int (parse_unsigned (c # cs)))"

section \<open>parse\_serial\_line\<close>

record sample =
  ax :: int
  ay :: int
  az :: int
  btn :: "int option"

text \<open>The list comprehension of the first line of \<open>parse_serial_line\<close>.\<close>

definition line_parts :: "string \<Rightarrow> string list" where
  "line_parts line = map strip (filter (\<lambda>p. strip p \<noteq> []) (split_on CHR '','' line))"

text \<open>
  The two \<open>try\<close> blocks: a failure of any of the first three conversions returns
  \<open>None\<close>; a failure of the fourth leaves \<open>btn = None\<close>. The indexing is guarded by
  the length tests, as in the source.
\<close>

definition parse_serial_line :: "string \<Rightarrow> sample option" where
  "parse_serial_line line =
     (let parts = line_parts line in
      if length parts < 3 then None
      else
        (case py_int (parts ! 0) of
           None \<Rightarrow> None
         | Some a \<Rightarrow>
             (case py_int (parts ! 1) of
                None \<Rightarrow> None
              | Some b \<Rightarrow>
                  (case py_int (parts ! 2) of
                     None \<Rightarrow> None
                   | Some c \<Rightarrow>
                       Some \<lparr>ax = a, ay = b, az = c,
                             btn = (if 4 \<le> length parts then py_int (parts ! 3) else None)\<rparr>))))"

section \<open>SerialReader: the bounded deque and get\_latest\<close>

text \<open>
  \<open>deque(maxlen=100)\<close>: \<open>append\<close> on a full deque discards the leftmost (oldest)
  entry. The reader thread's loop body strips the line it read and appends it when it
  is not empty. \<open>get_latest\<close> is \<open>self.queue.pop() if self.queue else None\<close>: it takes
  the rightmost entry and leaves every other entry in place.
\<close>

type_synonym line_queue = "string list"

definition deque_append :: "string \<Rightarrow> line_queue \<Rightarrow> line_queue" where
  "deque_append x q = (if QUEUE_MAXLEN \<le> length q then tl q @ [x] else q @ [x])"

definition reader_push :: "string \<Rightarrow> line_queue \<Rightarrow> line_queue" where
  "reader_push raw q = (let line = strip raw in if line \<noteq> [] then deque_append line q else q)"

definition get_latest :: "line_queue \<Rightarrow> string option \<times> line_queue" where
  "get_latest q = (if q \<noteq> [] then (Some (last q), butlast q) else (None, q))"

section \<open>Game entities\<close>

datatype py_error = IndexError | ZeroDivisionError

datatype game_state = MENU | PLAY | PAUSE | GAMEOVER

datatype key = K_RETURN | K_ESCAPE | K_p | K_OTHER

datatype event = QUIT | KEYDOWN key | OTHER_EVENT

record character =
  name :: string
  color :: "nat \<times> nat \<times> nat"
  radius :: int

text \<open>
  \<open>pygame.Rect\<close> holds four integers; \<open>left\<close>, \<open>right\<close>, \<open>top\<close>, \<open>bottom\<close>,
  \<open>centerx\<close> and \<open>centery\<close> are computed from them (the centre with integer division).
  Assigning a float to \<open>rect.x\<close> keeps its integer part: \<open>to_int\<close>.
\<close>

record rect =
  rect_x :: int
  rect_y :: int
  rect_w :: int
  rect_h :: int

definition rect_left :: "rect \<Rightarrow> int" where "rect_left r = rect_x r"
definition rect_right :: "rect \<Rightarrow> int" where "rect_right r = rect_x r + rect_w r"
definition rect_top :: "rect \<Rightarrow> int" where "rect_top r = rect_y r"
definition rect_bottom :: "rect \<Rightarrow> int" where "rect_bottom r = rect_y r + rect_h r"
definition rect_centerx :: "rect \<Rightarrow> int" where "rect_centerx r = rect_x r + rect_w r div 2"
definition rect_centery :: "rect \<Rightarrow> int" where "rect_centery r = rect_y r + rect_h r div 2"

lemmas rect_defs =
  rect_left_def rect_right_def rect_top_def rect_bottom_def rect_centerx_def rect_centery_def

definition to_int :: "real \<Rightarrow> int" where
  "to_int v = (if 0 \<le> v then \<lfloor>v\<rfloor> else \<lceil>v\<rceil>)"

record obstacle =
  orect :: rect
  vx :: real
  vy :: real

text \<open>\<open>Obstacle.update\<close>: move, then bounce on the screen edges, one axis after the other.\<close>

definition obstacle_update :: "obstacle \<Rightarrow> obstacle" where
  "obstacle_update ob =
     (let r1 = (orect ob)\<lparr>rect_x := to_int (real_of_int (rect_x (orect ob)) + vx ob)\<rparr>;
          r2 = r1\<lparr>rect_y := to_int (real_of_int (rect_y r1) + vy ob)\<rparr>;
          o2 = ob\<lparr>orect := r2\<rparr>;
          o3 = (if rect_left (orect o2) < 0 \<or> rect_right (orect o2) > WIDTH
                then o2\<lparr>vx := vx o2 * (- 1),
                        orect := (orect o2)\<lparr>rect_x :=
                          max 0 (min (rect_x (orect o2)) (WIDTH - rect_w (orect o2)))\<rparr>\<rparr>
                else o2)
      in (if rect_top (orect o3) < 0 \<or> rect_bottom (orect o3) > HEIGHT
          then o3\<lparr>vy := vy o3 * (- 1),
                  orect := (orect o3)\<lparr>rect_y :=
                    max 0 (min (rect_y (orect o3)) (HEIGHT - rect_h (orect o3)))\<rparr>\<rparr>
          else o3))"

section \<open>The state of main\<close>

text \<open>
  The local variables of \<open>main\<close> that the loop reads and writes, with the deque of the
  serial reader. \<open>game_over_time\<close> is unbound until the first game over.
\<close>

record game =
  characters :: "character list"
  current_char :: nat
  last_switch :: real
  state :: game_state
  obstacles :: "obstacle list"
  start_time :: real
  ball_x :: int
  ball_y :: int
  score :: int
  coin_x :: int
  coin_y :: int
  coin_special :: bool
  power_active :: bool
  power_ends_at :: real
  move_dx :: int
  move_dy :: int
  running :: bool
  queue :: line_queue
  game_over_time :: "real option"

text \<open>
  The values that \<open>random\<close> and \<open>time.time()\<close> hand to the program are inputs of the
  model: one record per obstacle spawned, one per coin spawned, one per call of
  \<open>init_game\<close>.
\<close>

record obstacle_draw =
  d_w :: int
  d_h :: int
  d_x :: int
  d_y :: int
  d_sign_x :: int
  d_speed_x :: real
  d_sign_y :: int
  d_speed_y :: real

record coin_draw =
  c_x :: int
  c_y :: int
  c_roll :: real

record round_draw =
  r_coin :: coin_draw
  r_obstacle :: "nat \<Rightarrow> obstacle_draw"
  r_time :: real

definition spawn_obstacle :: "obstacle_draw \<Rightarrow> obstacle" where
  "spawn_obstacle d =
     \<lparr>orect = \<lparr>rect_x = d_x d, rect_y = d_y d, rect_w = d_w d, rect_h = d_h d\<rparr>,
      vx = real_of_int (d_sign_x d) * d_speed_x d,
      vy = real_of_int (d_sign_y d) * d_speed_y d\<rparr>"

definition spawn_coin :: "coin_draw \<Rightarrow> game \<Rightarrow> game" where
  "spawn_coin c s =
     s\<lparr>coin_x := c_x c, coin_y := c_y c, coin_special := (c_roll c < POWERUP_CHANCE)\<rparr>"

definition init_game :: "round_draw \<Rightarrow> game \<Rightarrow> game" where
  "init_game rd s =
     (spawn_coin (r_coin rd) (s\<lparr>ball_x := WIDTH div 2, ball_y := HEIGHT div 2, score := 0\<rparr>))
       \<lparr>power_active := False,
        power_ends_at := 0,
        obstacles := map (\<lambda>i. spawn_obstacle (r_obstacle rd i)) [0..<OBSTACLE_COUNT],
        start_time := r_time rd\<rparr>"

definition base_characters :: "character list" where
  "base_characters =
     [\<lparr>name = ''Green'', color = (60, 200, 80), radius = BALL_RADIUS\<rparr>,
      \<lparr>name = ''Blue'', color = (60, 140, 220), radius = BALL_RADIUS\<rparr>,
      \<lparr>name = ''Orange'', color = (255, 165, 60), radius = BALL_RADIUS\<rparr>]"

text \<open>The state of \<open>main\<close> when it enters the game loop.\<close>

definition main_init :: "round_draw \<Rightarrow> game" where
  "main_init rd =
     init_game rd
       \<lparr>characters = base_characters, current_char = 0, last_switch = 0, state = MENU,
        obstacles = [], start_time = 0, ball_x = 0, ball_y = 0, score = 0,
        coin_x = 0, coin_y = 0, coin_special = False, power_active = False,
        power_ends_at = 0, move_dx = 0, move_dy = 0, running = True, queue = [],
        game_over_time = None\<rparr>"

section \<open>Events\<close>

text \<open>
  One iteration of the event loop. The draw paired with an event is what \<open>init_game\<close>
  would take if that event starts a round.
\<close>

definition handle_event :: "event \<times> round_draw \<Rightarrow> game \<Rightarrow> game" where
  "handle_event er s =
     (case fst er of
        QUIT \<Rightarrow> s\<lparr>running := False\<rparr>
      | OTHER_EVENT \<Rightarrow> s
      | KEYDOWN k \<Rightarrow>
          (case state s of
             MENU \<Rightarrow>
               if k = K_RETURN then init_game (snd er) (s\<lparr>state := PLAY\<rparr>)
               else if k = K_ESCAPE then s\<lparr>running := False\<rparr>
               else s
           | PLAY \<Rightarrow>
               if k = K_p then s\<lparr>state := PAUSE\<rparr>
               else if k = K_ESCAPE then s\<lparr>state := MENU\<rparr>
               else s
           | PAUSE \<Rightarrow>
               if k = K_p then s\<lparr>state := PLAY\<rparr>
               else if k = K_ESCAPE then s\<lparr>state := MENU\<rparr>
               else s
           | GAMEOVER \<Rightarrow>
               if k = K_RETURN then init_game (snd er) (s\<lparr>state := PLAY\<rparr>)
               else if k = K_ESCAPE then s\<lparr>state := MENU\<rparr>
               else s))"

definition handle_events :: "(event \<times> round_draw) list \<Rightarrow> game \<Rightarrow> game" where
  "handle_events evs s = fold handle_event evs s"

section \<open>Serial input processing\<close>

definition sensor_dx :: "int \<Rightarrow> int" where
  "sensor_dx a =
     (if a > AX_POS_THRESHOLD then 0 + BALL_SPEED
      else if a < AX_NEG_THRESHOLD then 0 - BALL_SPEED
      else 0)"

definition sensor_dy :: "int \<Rightarrow> int" where
  "sensor_dy a =
     (if a > AY_POS_THRESHOLD then 0 - BALL_SPEED
      else if a < AY_NEG_THRESHOLD then 0 + BALL_SPEED
      else 0)"

text \<open>
  \<open>current_char = (current_char + 1) % len(characters); last_switch = now\<close>.
  The modulus raises when the list is empty.
\<close>

definition switch_character :: "real \<Rightarrow> game \<Rightarrow> py_error + game" where
  "switch_character now s =
     (if length (characters s) = 0 then Inl ZeroDivisionError
      else Inr (s\<lparr>current_char := (current_char s + 1) mod length (characters s),
                  last_switch := now\<rparr>))"

text \<open>
  The button test sets the flag \<open>switched\<close>; the shake test is guarded by
  \<open>not switched\<close>.
\<close>

definition button_trigger :: "real \<Rightarrow> sample \<Rightarrow> game \<Rightarrow> bool" where
  "button_trigger now p s =
     (btn p \<noteq> None \<and> btn p = Some 1 \<and> now - last_switch s > SWITCH_DEBOUNCE)"

definition shake_trigger :: "real \<Rightarrow> sample \<Rightarrow> game \<Rightarrow> bool" where
  "shake_trigger now p s =
     (\<bar>az p\<bar> > SHAKE_THRESHOLD \<and> now - last_switch s > SWITCH_DEBOUNCE)"

definition button_switch :: "real \<Rightarrow> sample \<Rightarrow> game \<Rightarrow> py_error + game \<times> bool" where
  "button_switch now p s =
     (if button_trigger now p s
      then (case switch_character now s of
              Inl e \<Rightarrow> Inl e
            | Inr s' \<Rightarrow> Inr (s', True))
      else Inr (s, False))"

definition shake_switch :: "real \<Rightarrow> sample \<Rightarrow> game \<times> bool \<Rightarrow> py_error + game" where
  "shake_switch now p sw =
     (if \<not> snd sw \<and> shake_trigger now p (fst sw)
      then switch_character now (fst sw)
      else Inr (fst sw))"

definition process_sample :: "real \<Rightarrow> sample \<Rightarrow> game \<Rightarrow> py_error + game" where
  "process_sample now p s =
     (let s1 = s\<lparr>move_dx := sensor_dx (ax p), move_dy := sensor_dy (ay p)\<rparr>
      in (case button_switch now p s1 of
            Inl e \<Rightarrow> Inl e
          | Inr sw \<Rightarrow> shake_switch now p sw))"

text \<open>
  \<open>latest_line = ser_reader.get_latest()\<close>, then the two truth tests
  \<open>if latest_line:\<close> and \<open>if parsed:\<close>.
\<close>

definition serial_input :: "real \<Rightarrow> game \<Rightarrow> py_error + game" where
  "serial_input now s =
     (let (latest_line, q) = get_latest (queue s);
          s0 = s\<lparr>queue := q\<rparr>
      in (case latest_line of
            None \<Rightarrow> Inr s0
          | Some l \<Rightarrow>
              if l = [] then Inr s0
              else (case parse_serial_line l of
                      None \<Rightarrow> Inr s0
                    | Some p \<Rightarrow> process_sample now p s0)))"

section \<open>Keyboard fallback\<close>

record keys =
  k_left :: bool
  k_right :: bool
  k_up :: bool
  k_down :: bool

definition keyboard_dx :: "keys \<Rightarrow> int" where
  "keyboard_dx ks =
     (if k_left ks then - BALL_SPEED else 0) + (if k_right ks then BALL_SPEED else 0)"

definition keyboard_dy :: "keys \<Rightarrow> int" where
  "keyboard_dy ks =
     (if k_up ks then - BALL_SPEED else 0) + (if k_down ks then BALL_SPEED else 0)"

definition keyboard :: "keys \<Rightarrow> game \<Rightarrow> game" where
  "keyboard ks s =
     (let s1 = (if k_left ks then s\<lparr>move_dx := move_dx s - BALL_SPEED\<rparr> else s);
          s2 = (if k_right ks then s1\<lparr>move_dx := move_dx s1 + BALL_SPEED\<rparr> else s1);
          s3 = (if k_up ks then s2\<lparr>move_dy := move_dy s2 - BALL_SPEED\<rparr> else s2)
      in (if k_down ks then s3\<lparr>move_dy := move_dy s3 + BALL_SPEED\<rparr> else s3))"

section \<open>Update of the game state\<close>

definition cur_radius :: "game \<Rightarrow> int" where
  "cur_radius s = radius (characters s ! current_char s)"

definition set_cur_radius :: "int \<Rightarrow> game \<Rightarrow> game" where
  "set_cur_radius v s =
     s\<lparr>characters :=
         (characters s)[current_char s := (characters s ! current_char s)\<lparr>radius := v\<rparr>]\<rparr>"

text \<open>\<open>(dx**2 + dy**2)**0.5\<close>.\<close>

definition euclid :: "int \<Rightarrow> int \<Rightarrow> real" where
  "euclid dx dy = sqrt (real_of_int (dx\<^sup>2 + dy\<^sup>2))"

definition move_ball :: "game \<Rightarrow> game" where
  "move_ball s =
     (let s1 = s\<lparr>ball_x := ball_x s + move_dx s\<rparr>;
          s2 = s1\<lparr>ball_y := ball_y s1 + move_dy s1\<rparr>;
          s3 = s2\<lparr>ball_x := max (cur_radius s2) (min (WIDTH - cur_radius s2) (ball_x s2))\<rparr>
      in s3\<lparr>ball_y := max (cur_radius s3) (min (HEIGHT - cur_radius s3) (ball_y s3))\<rparr>)"

definition coin_touched :: "game \<Rightarrow> bool" where
  "coin_touched s =
     (euclid (ball_x s - coin_x s) (ball_y s - coin_y s)
        < real_of_int (cur_radius s + COIN_RADIUS))"

definition collect_coin :: "real \<Rightarrow> coin_draw \<Rightarrow> game \<Rightarrow> game" where
  "collect_coin now c s =
     (if coin_touched s
      then spawn_coin c
             (if coin_special s
              then set_cur_radius (BALL_RADIUS + 8)
                     (s\<lparr>score := score s + 5, power_active := True,
                        power_ends_at := now + POWERUP_DURATION\<rparr>)
              else s\<lparr>score := score s + 1\<rparr>)
      else s)"

definition power_timeout :: "real \<Rightarrow> game \<Rightarrow> game" where
  "power_timeout now s =
     (if power_active s \<and> now \<ge> power_ends_at s
      then set_cur_radius BALL_RADIUS (s\<lparr>power_active := False\<rparr>)
      else s)"

text \<open>
  The body of the obstacle loop after \<open>obs.update()\<close>: the two \<open>continue\<close> tests, then
  the closest point of the rectangle and its distance to the ball.
\<close>

definition closest_x :: "game \<Rightarrow> obstacle \<Rightarrow> int" where
  "closest_x s ob = max (rect_left (orect ob)) (min (ball_x s) (rect_right (orect ob)))"

definition closest_y :: "game \<Rightarrow> obstacle \<Rightarrow> int" where
  "closest_y s ob = max (rect_top (orect ob)) (min (ball_y s) (rect_bottom (orect ob)))"

definition closest_dist :: "game \<Rightarrow> obstacle \<Rightarrow> real" where
  "closest_dist s ob = euclid (ball_x s - closest_x s ob) (ball_y s - closest_y s ob)"

definition obstacle_hit :: "game \<Rightarrow> obstacle \<Rightarrow> bool" where
  "obstacle_hit s ob =
     (let circle_dist_x = \<bar>ball_x s - rect_centerx (orect ob)\<bar>;
          circle_dist_y = \<bar>ball_y s - rect_centery (orect ob)\<bar>
      in if real_of_int circle_dist_x
              > real_of_int (rect_w (orect ob)) / 2 + real_of_int (cur_radius s) then False
         else if real_of_int circle_dist_y
              > real_of_int (rect_h (orect ob)) / 2 + real_of_int (cur_radius s) then False
         else closest_dist s ob < real_of_int (cur_radius s))"

definition game_over :: "real \<Rightarrow> game \<Rightarrow> game" where
  "game_over now s = s\<lparr>state := GAMEOVER, game_over_time := Some now\<rparr>"

text \<open>
  The loop over the obstacles: each one is updated in place and then tested; a hit
  does not leave the loop. The result is the list of updated obstacles and the state.
\<close>

fun for_obstacles :: "real \<Rightarrow> obstacle list \<Rightarrow> game \<Rightarrow> obstacle list \<times> game" where
  "for_obstacles now [] s = ([], s)"
| "for_obstacles now (ob # rest) s =
     (let ob' = obstacle_update ob;
          s' = (if obstacle_hit s ob' then game_over now s else s);
          (rest', s'') = for_obstacles now rest s'
      in (ob' # rest', s''))"

definition update_obstacles :: "real \<Rightarrow> game \<Rightarrow> game" where
  "update_obstacles now s =
     (let (obs, s') = for_obstacles now (obstacles s) s in s'\<lparr>obstacles := obs\<rparr>)"

definition round_timer :: "real \<Rightarrow> game \<Rightarrow> game" where
  "round_timer now s =
     (let elapsed = now - start_time s
      in if elapsed \<ge> GAME_DURATION then game_over now s else s)"

text \<open>
  The block under \<open>if state == STATE_PLAY\<close>. Its first read of
  \<open>characters[current_char]\<close> raises when the index is out of range.
\<close>

definition update_play :: "real \<Rightarrow> coin_draw \<Rightarrow> game \<Rightarrow> game" where
  "update_play now c s =
     round_timer now (update_obstacles now (power_timeout now (collect_coin now c (move_ball s))))"

definition update_game :: "real \<Rightarrow> coin_draw \<Rightarrow> game \<Rightarrow> py_error + game" where
  "update_game now c s =
     (if current_char s < length (characters s) then Inr (update_play now c s)
      else Inl IndexError)"

section \<open>One iteration of the game loop\<close>

text \<open>
  The inputs of one tick: the clock, the pending events, the raw lines the reader
  thread has read since the previous tick, the held arrow keys and the draw for a coin
  spawned in this tick.
\<close>

record tick_input =
  t_now :: real
  t_events :: "(event \<times> round_draw) list"
  t_arrived :: "string list"
  t_keys :: keys
  t_coin :: coin_draw

definition reader_run :: "string list \<Rightarrow> game \<Rightarrow> game" where
  "reader_run raws s = s\<lparr>queue := fold reader_push raws (queue s)\<rparr>"

definition before_update :: "tick_input \<Rightarrow> game \<Rightarrow> py_error + game" where
  "before_update inp s =
     (case serial_input (t_now inp) (reader_run (t_arrived inp) (handle_events (t_events inp) s)) of
        Inl e \<Rightarrow> Inl e
      | Inr s' \<Rightarrow> Inr (keyboard (t_keys inp) s'))"

definition tick :: "tick_input \<Rightarrow> game \<Rightarrow> py_error + game" where
  "tick inp s =
     (case before_update inp s of
        Inl e \<Rightarrow> Inl e
      | Inr s' \<Rightarrow>
          if state s' = PLAY then update_game (t_now inp) (t_coin inp) s' else Inr s')"

text \<open>The \<open>while running\<close> loop over a finite sequence of tick inputs.\<close>

fun run :: "tick_input list \<Rightarrow> game \<Rightarrow> py_error + game" where
  "run [] s = Inr s"
| "run (inp # inps) s =
     (if running s
      then (case tick inp s of
              Inl e \<Rightarrow> Inl e
            | Inr s' \<Rightarrow> run inps s')
      else Inr s)"

section \<open>Round state\<close>

text \<open>
  The variables that \<open>init_game\<close> sets up for a round, with the character list that
  holds the radii: two states agree on the round when they agree on all of them.
\<close>

definition same_round :: "game \<Rightarrow> game \<Rightarrow> bool" where
  "same_round s t =
     (score t = score s \<and> ball_x t = ball_x s \<and> ball_y t = ball_y s \<and>
      coin_x t = coin_x s \<and> coin_y t = coin_y s \<and> coin_special t = coin_special s \<and>
      obstacles t = obstacles s \<and> start_time t = start_time s \<and>
      power_active t = power_active s \<and> power_ends_at t = power_ends_at s \<and>
      characters t = characters s)"

section \<open>Switch-eligible samples\<close>

text \<open>
  A sample can switch the character when its button value is the pressed value 1 or
  when the absolute value of az exceeds the shake threshold.
\<close>

definition switch_eligible :: "sample \<Rightarrow> bool" where
  "switch_eligible p = (btn p = Some 1 \<or> \<bar>az p\<bar> > SHAKE_THRESHOLD)"

section \<open>Example inputs\<close>

text \<open>Concrete draws and states on which the theorems below are evaluated.\<close>

definition far_obstacle :: obstacle_draw where
  "far_obstacle =
     \<lparr>d_w = 40, d_h = 40, d_x = 0, d_y = 0,
      d_sign_x = 1, d_speed_x = 2, d_sign_y = 1, d_speed_y = 2\<rparr>"

definition special_round :: round_draw where
  "special_round =
     \<lparr>r_coin = \<lparr>c_x = 450, c_y = 300, c_roll = 1 / 10\<rparr>,
      r_obstacle = (\<lambda>i. far_obstacle), r_time = 1000\<rparr>"

definition plain_round :: round_draw where
  "plain_round =
     \<lparr>r_coin = \<lparr>c_x = 800, c_y = 500, c_roll = 1 / 2\<rparr>,
      r_obstacle = (\<lambda>i. far_obstacle), r_time = 1000\<rparr>"

definition no_keys :: keys where
  "no_keys = \<lparr>k_left = False, k_right = False, k_up = False, k_down = False\<rparr>"

definition far_coin :: coin_draw where
  "far_coin = \<lparr>c_x = 800, c_y = 500, c_roll = 1 / 2\<rparr>"

definition playing_state :: game where
  "playing_state = (main_init special_round)\<lparr>state := PLAY\<rparr>"

definition paused_state :: game where
  "paused_state = (main_init special_round)\<lparr>state := PAUSE\<rparr>"

definition pause_input :: tick_input where
  "pause_input =
     \<lparr>t_now = 1010, t_events = [(KEYDOWN K_p, plain_round)], t_arrived = [],
      t_keys = no_keys, t_coin = far_coin\<rparr>"

definition idle_input :: tick_input where
  "idle_input =
     \<lparr>t_now = 1020, t_events = [], t_arrived = [], t_keys = no_keys, t_coin = far_coin\<rparr>"

definition resume_input :: tick_input where
  "resume_input =
     \<lparr>t_now = 1070, t_events = [(KEYDOWN K_p, plain_round)], t_arrived = [],
      t_keys = no_keys, t_coin = far_coin\<rparr>"



definition shake_sample :: sample where
  "shake_sample = \<lparr>ax = 0, ay = 0, az = 20000, btn = None\<rparr>"

definition press_shake_sample :: sample where
  "press_shake_sample = \<lparr>ax = 0, ay = 0, az = 20000, btn = Some 1\<rparr>"

definition switched_state :: game where
  "switched_state =
     (main_init special_round)\<lparr>move_dx := 0, move_dy := 0, current_char := 1, last_switch := 1000\<rparr>"

definition start_input :: tick_input where
  "start_input =
     \<lparr>t_now = 1001, t_events = [(KEYDOWN K_RETURN, special_round)], t_arrived = [],
      t_keys = no_keys, t_coin = far_coin\<rparr>"

definition restart_input :: tick_input where
  "restart_input =
     \<lparr>t_now = 1002,
      t_events = [(KEYDOWN K_ESCAPE, plain_round), (KEYDOWN K_RETURN, plain_round)],
      t_arrived = [], t_keys = no_keys, t_coin = far_coin\<rparr>"

definition shake_input :: "real \<Rightarrow> tick_input" where
  "shake_input now =
     \<lparr>t_now = now, t_events = [], t_arrived = [''0,0,20000''],
      t_keys = no_keys, t_coin = far_coin\<rparr>"

definition moved_obstacles :: "int \<Rightarrow> obstacle list" where
  "moved_obstacles n =
     replicate 3 \<lparr>orect = \<lparr>rect_x = n, rect_y = n, rect_w = 40, rect_h = 40\<rparr>, vx = 2, vy = 2\<rparr>"

text \<open>The state after the first tick of a round that starts on a special coin.\<close>

definition powered_state :: game where
  "powered_state =
     \<lparr>characters =
        [\<lparr>name = ''Green'', color = (60, 200, 80), radius = 33\<rparr>,
         \<lparr>name = ''Blue'', color = (60, 140, 220), radius = 25\<rparr>,
         \<lparr>name = ''Orange'', color = (255, 165, 60), radius = 25\<rparr>],
      current_char = 0, last_switch = 0, state = PLAY, obstacles = moved_obstacles 2,
      start_time = 1000, ball_x = 450, ball_y = 300, score = 5,
      coin_x = 800, coin_y = 500, coin_special = False,
      power_active = True, power_ends_at = 1007, move_dx = 0, move_dy = 0,
      running = True, queue = [], game_over_time = None\<rparr>"

definition restarted_state :: game where
  "restarted_state = powered_state\<lparr>score := 0, power_active := False, power_ends_at := 0\<rparr>"

definition switched_back_state :: game where
  "switched_back_state =
     powered_state\<lparr>current_char := 0, last_switch := 1009, obstacles := moved_obstacles 8,
                    power_active := False\<rparr>"

section \<open>The line parser\<close>

lemma split_on_nonempty: "split_on c s \<noteq> []"
  by (induction s) (auto split: list.splits)

lemma split_on_no_sep: "p \<in> set (split_on c s) \<Longrightarrow> c \<notin> set p"
  by (induction s arbitrary: p) (auto split: list.splits if_splits)

lemma set_strip_subset: "set (strip s) \<subseteq> set s"
proof -
  have "set (strip s) = set (dropWhile is_space (rev (dropWhile is_space s)))"
    by (simp add: strip_def)
  also have "\<dots> \<subseteq> set (rev (dropWhile is_space s))"
    by (rule set_dropWhileD[THEN subsetI]) 
  also have "\<dots> \<subseteq> set s"
    using set_dropWhileD by fastforce
  finally show ?thesis .
qed

lemma line_parts_tokens:
  "p \<in> set (line_parts l) \<Longrightarrow> p \<noteq> [] \<and> CHR '','' \<notin> set p"
  using set_strip_subset split_on_no_sep by (fastforce simp: line_parts_def)

lemma parse_serial_line_take4:
  assumes "take 4 (line_parts l) = take 4 (line_parts l')"
  shows "parse_serial_line l = parse_serial_line l'"
proof -
  let ?p = "line_parts l" and ?q = "line_parts l'"
  have len: "min (length ?p) 4 = min (length ?q) 4"
    using assms by (metis length_take)
  have nth: "\<And>i. i < 4 \<Longrightarrow> i < length ?p \<Longrightarrow> ?p ! i = ?q ! i"
    using assms by (metis nth_take)
  have l3: "(length ?p < 3) = (length ?q < 3)" using len by linarith
  have l4: "(4 \<le> length ?p) = (4 \<le> length ?q)" using len by linarith
  show ?thesis
  proof (cases "length ?p < 3")
    case True
    then show ?thesis using l3 by (simp add: parse_serial_line_def)
  next
    case False
    then have ne: "?p \<noteq> []" by auto
    from False ne have e: "?p ! 0 = ?q ! 0" "?p ! 1 = ?q ! 1" "?p ! 2 = ?q ! 2"
      using nth[of 0] nth[of 1] nth[of 2] by simp_all
    have e3: "4 \<le> length ?p \<Longrightarrow> ?p ! 3 = ?q ! 3" using nth[of 3] by simp
    show ?thesis
      using False l3 l4 e e3
      by (simp add: parse_serial_line_def Let_def split: option.splits)
  qed
qed

lemmas parse_eval_defs =
  parse_serial_line_def line_parts_def strip_def is_space_def py_int_def
  parse_unsigned_def is_digit_def digit_val_def

text \<open>
  Claim C6. The parser splits the line on commas and discards the tokens that are empty
  once stripped; it returns no result when fewer than three tokens remain or when one
  of the first three is not an integer; otherwise the first three tokens are ax, ay
  and az, the fourth token gives the button value when it is an integer and no button
  when it is missing or not an integer; tokens after the fourth are ignored. The five
  examples of the specification evaluate as stated.
\<close>

theorem parse_serial_line_spec:
  "(\<forall>p \<in> set (line_parts l). p \<noteq> [] \<and> CHR '','' \<notin> set p) \<and>
   (length (line_parts l) < 3 \<longrightarrow> parse_serial_line l = None) \<and>
   ((\<exists>i<3. py_int (line_parts l ! i) = None) \<longrightarrow> parse_serial_line l = None) \<and>
   (3 \<le> length (line_parts l) \<and> py_int (line_parts l ! 0) = Some a \<and>
      py_int (line_parts l ! 1) = Some b \<and> py_int (line_parts l ! 2) = Some c \<longrightarrow>
      parse_serial_line l =
        Some \<lparr>ax = a, ay = b, az = c,
              btn = (if 4 \<le> length (line_parts l) then py_int (line_parts l ! 3) else None)\<rparr>) \<and>
   (take 4 (line_parts l) = take 4 (line_parts l') \<longrightarrow>
      parse_serial_line l = parse_serial_line l') \<and>
   parse_serial_line ''100,-200,300'' = Some \<lparr>ax = 100, ay = - 200, az = 300, btn = None\<rparr> \<and>
   parse_serial_line ''1,2,3,1'' = Some \<lparr>ax = 1, ay = 2, az = 3, btn = Some 1\<rparr> \<and>
   parse_serial_line ''1,2'' = None \<and>
   parse_serial_line ''a,2,3'' = None \<and>
   parse_serial_line ''1,2,3,x'' = Some \<lparr>ax = 1, ay = 2, az = 3, btn = None\<rparr>"
proof (intro conjI)
  show "\<forall>p \<in> set (line_parts l). p \<noteq> [] \<and> CHR '','' \<notin> set p"
    using line_parts_tokens by blast
  show "length (line_parts l) < 3 \<longrightarrow> parse_serial_line l = None"
    by (simp add: parse_serial_line_def)
  show "(\<exists>i<3. py_int (line_parts l ! i) = None) \<longrightarrow> parse_serial_line l = None"
  proof
    assume "\<exists>i<3. py_int (line_parts l ! i) = None"
    then obtain i where i: "i < 3" "py_int (line_parts l ! i) = None" by blast
    then have "i = 0 \<or> i = 1 \<or> i = 2" by linarith
    with i(2) show "parse_serial_line l = None"
      by (auto simp: parse_serial_line_def Let_def split: option.splits)
  qed
  show "3 \<le> length (line_parts l) \<and> py_int (line_parts l ! 0) = Some a \<and>
      py_int (line_parts l ! 1) = Some b \<and> py_int (line_parts l ! 2) = Some c \<longrightarrow>
      parse_serial_line l =
        Some \<lparr>ax = a, ay = b, az = c,
              btn = (if 4 \<le> length (line_parts l) then py_int (line_parts l ! 3) else None)\<rparr>"
    by (simp add: parse_serial_line_def Let_def)
  show "take 4 (line_parts l) = take 4 (line_parts l') \<longrightarrow>
      parse_serial_line l = parse_serial_line l'"
    using parse_serial_line_take4 by blast
  show "parse_serial_line ''100,-200,300'' = Some \<lparr>ax = 100, ay = - 200, az = 300, btn = None\<rparr>"
    by (simp add: parse_eval_defs)
  show "parse_serial_line ''1,2,3,1'' = Some \<lparr>ax = 1, ay = 2, az = 3, btn = Some 1\<rparr>"
    by (simp add: parse_eval_defs)
  show "parse_serial_line ''1,2'' = None"
    by (simp add: parse_eval_defs)
  show "parse_serial_line ''a,2,3'' = None"
    by (simp add: parse_eval_defs)
  show "parse_serial_line ''1,2,3,x'' = Some \<lparr>ax = 1, ay = 2, az = 3, btn = None\<rparr>"
    by (simp add: parse_eval_defs)
qed

lemma lp1: "line_parts ''7,8'' = [''7'', ''8'']" by (simp add: parse_eval_defs)
lemma lp2: "line_parts ''7,x,9'' = [''7'', ''x'', ''9'']" by (simp add: parse_eval_defs)
lemma lp3: "line_parts ''7,-8,+9,, 1_0 ,5,6'' = [''7'', ''-8'', ''+9'', ''1_0'', ''5'', ''6'']" by (simp add: parse_eval_defs)
lemma lp4: "line_parts ''7,-8,+9,1_0,zz'' = [''7'', ''-8'', ''+9'', ''1_0'', ''zz'']" by (simp add: parse_eval_defs)

theorem parse_serial_line_spec_witness:
  "length (line_parts ''7,8'') < 3 \<and> parse_serial_line ''7,8'' = None \<and>
   (\<exists>i<3. py_int (line_parts ''7,x,9'' ! i) = None) \<and> parse_serial_line ''7,x,9'' = None \<and>
   3 \<le> length (line_parts ''7,-8,+9,, 1_0 ,5,6'') \<and>
   take 4 (line_parts ''7,-8,+9,, 1_0 ,5,6'') = take 4 (line_parts ''7,-8,+9,1_0,zz'') \<and>
   parse_serial_line ''7,-8,+9,, 1_0 ,5,6'' = Some \<lparr>ax = 7, ay = - 8, az = 9, btn = Some 10\<rparr> \<and>
   parse_serial_line ''7,-8,+9,1_0,zz'' = Some \<lparr>ax = 7, ay = - 8, az = 9, btn = Some 10\<rparr> \<and>
   [] \<notin> set (line_parts ''7,8'')"
proof -
  have h1: "length (line_parts ''7,8'') < 3" by (simp add: lp1)
  have h2: "\<exists>i<3. py_int (line_parts ''7,x,9'' ! i) = None"
    by (rule exI[of _ 1]) (simp add: lp2, simp add: parse_eval_defs)
  have h3: "3 \<le> length (line_parts ''7,-8,+9,, 1_0 ,5,6'') \<and>
      py_int (line_parts ''7,-8,+9,, 1_0 ,5,6'' ! 0) = Some 7 \<and>
      py_int (line_parts ''7,-8,+9,, 1_0 ,5,6'' ! 1) = Some (- 8) \<and>
      py_int (line_parts ''7,-8,+9,, 1_0 ,5,6'' ! 2) = Some 9"
    by (simp add: lp3, simp add: parse_eval_defs)
  have h4: "take 4 (line_parts ''7,-8,+9,, 1_0 ,5,6'') = take 4 (line_parts ''7,-8,+9,1_0,zz'')"
    by (simp add: lp3 lp4)
  have b: "py_int (line_parts ''7,-8,+9,, 1_0 ,5,6'' ! 3) = Some 10"
    by (simp add: lp3, simp add: parse_eval_defs)
  note t1 = parse_serial_line_spec[of "''7,8''" 0 0 0 "''7,8''"]
  note t2 = parse_serial_line_spec[of "''7,x,9''" 0 0 0 "''7,x,9''"]
  note t3 = parse_serial_line_spec[of "''7,-8,+9,, 1_0 ,5,6''" 7 "- 8" 9 "''7,-8,+9,1_0,zz''"]
  have r1: "parse_serial_line ''7,8'' = None" using t1 h1 by blast
  have r2: "parse_serial_line ''7,x,9'' = None" using t2 h2 by blast
  have r3: "parse_serial_line ''7,-8,+9,, 1_0 ,5,6'' = Some \<lparr>ax = 7, ay = - 8, az = 9, btn = Some 10\<rparr>"
    using t3 h3 b by (simp add: lp3)
  have r4: "parse_serial_line ''7,-8,+9,1_0,zz'' = Some \<lparr>ax = 7, ay = - 8, az = 9, btn = Some 10\<rparr>"
    using t3 h4 r3 by simp
  have r5: "[] \<notin> set (line_parts ''7,8'')"
    using t1 by blast
  show ?thesis using h1 h2 h3 h4 r1 r2 r3 r4 r5 by blast
qed

section \<open>Frame properties and the character index\<close>

subsection \<open>What each phase leaves alone\<close>

lemma init_game_frame:
  "characters (init_game rd s) = characters s"
  "current_char (init_game rd s) = current_char s"
  "last_switch (init_game rd s) = last_switch s"
  "move_dx (init_game rd s) = move_dx s"
  "move_dy (init_game rd s) = move_dy s"
  "queue (init_game rd s) = queue s"
  "state (init_game rd s) = state s"
  "running (init_game rd s) = running s"
  by (simp_all add: init_game_def spawn_coin_def)

lemma handle_event_frame:
  "characters (handle_event er s) = characters s"
  "current_char (handle_event er s) = current_char s"
  "last_switch (handle_event er s) = last_switch s"
  "move_dx (handle_event er s) = move_dx s"
  "move_dy (handle_event er s) = move_dy s"
  "queue (handle_event er s) = queue s"
  by (simp_all add: handle_event_def init_game_frame split: event.splits game_state.splits)

lemma handle_events_frame:
  "characters (handle_events evs s) = characters s"
  "current_char (handle_events evs s) = current_char s"
  "last_switch (handle_events evs s) = last_switch s"
  "move_dx (handle_events evs s) = move_dx s"
  "move_dy (handle_events evs s) = move_dy s"
  "queue (handle_events evs s) = queue s"
  unfolding handle_events_def
  by (induction evs arbitrary: s) (simp_all add: handle_event_frame)

lemma set_cur_radius_frame:
  "length (characters (set_cur_radius v s)) = length (characters s)"
  "current_char (set_cur_radius v s) = current_char s"
  "state (set_cur_radius v s) = state s"
  "power_active (set_cur_radius v s) = power_active s"
  "power_ends_at (set_cur_radius v s) = power_ends_at s"
  "score (set_cur_radius v s) = score s"
  "start_time (set_cur_radius v s) = start_time s"
  "ball_x (set_cur_radius v s) = ball_x s"
  "ball_y (set_cur_radius v s) = ball_y s"
  "obstacles (set_cur_radius v s) = obstacles s"
  by (simp_all add: set_cur_radius_def)

lemma cur_radius_set_cur_radius:
  "current_char s < length (characters s) \<Longrightarrow> cur_radius (set_cur_radius v s) = v"
  by (simp add: cur_radius_def set_cur_radius_def)

lemma game_over_idem: "game_over now (game_over now s) = game_over now s"
  by (simp add: game_over_def)

lemma obstacle_hit_game_over: "obstacle_hit (game_over now s) ob = obstacle_hit s ob"
  by (simp add: obstacle_hit_def game_over_def closest_dist_def closest_x_def closest_y_def
      cur_radius_def)

lemma for_obstacles_fst: "fst (for_obstacles now obs s) = map obstacle_update obs"
  by (induction obs arbitrary: s) (simp_all add: Let_def case_prod_beta)

lemma for_obstacles_snd:
  "snd (for_obstacles now obs s) =
     (if \<exists>ob \<in> set obs. obstacle_hit s (obstacle_update ob) then game_over now s else s)"
proof (induction obs arbitrary: s)
  case Nil
  then show ?case by simp
next
  case (Cons ob rest)
  show ?case
  proof (cases "obstacle_hit s (obstacle_update ob)")
    case True
    then show ?thesis
      using Cons.IH[of "game_over now s"]
      by (simp add: Let_def game_over_idem obstacle_hit_game_over case_prod_beta)
  next
    case False
    then show ?thesis
      using Cons.IH[of s] by (simp add: Let_def case_prod_beta)
  qed
qed

lemma update_obstacles_eq:
  "update_obstacles now s =
     (if \<exists>ob \<in> set (obstacles s). obstacle_hit s (obstacle_update ob)
      then game_over now s else s)\<lparr>obstacles := map obstacle_update (obstacles s)\<rparr>"
proof -
  obtain obs s' where p: "for_obstacles now (obstacles s) s = (obs, s')"
    by (cases "for_obstacles now (obstacles s) s")
  have "obs = map obstacle_update (obstacles s)"
    using for_obstacles_fst[of now "obstacles s" s] p by simp
  moreover have "s' = (if \<exists>ob \<in> set (obstacles s). obstacle_hit s (obstacle_update ob)
      then game_over now s else s)"
    using for_obstacles_snd[of now "obstacles s" s] p by simp
  ultimately show ?thesis by (simp add: update_obstacles_def p)
qed

lemma move_ball_chars:
  "characters (move_ball s) = characters s"
  "current_char (move_ball s) = current_char s"
  by (simp_all add: move_ball_def Let_def)

lemma collect_coin_chars:
  "length (characters (collect_coin now c s)) = length (characters s)"
  "current_char (collect_coin now c s) = current_char s"
  by (simp_all add: collect_coin_def spawn_coin_def set_cur_radius_def)

lemma power_timeout_chars:
  "length (characters (power_timeout now s)) = length (characters s)"
  "current_char (power_timeout now s) = current_char s"
  by (simp_all add: power_timeout_def set_cur_radius_def)

lemma update_obstacles_chars:
  "characters (update_obstacles now s) = characters s"
  "current_char (update_obstacles now s) = current_char s"
  by (simp_all add: update_obstacles_eq game_over_def)

lemma round_timer_chars:
  "characters (round_timer now s) = characters s"
  "current_char (round_timer now s) = current_char s"
  by (simp_all add: round_timer_def game_over_def Let_def)

lemma update_play_chars:
  "length (characters (update_play now c s)) = length (characters s)"
  "current_char (update_play now c s) = current_char s"
  by (simp_all add: update_play_def round_timer_chars update_obstacles_chars
      power_timeout_chars collect_coin_chars move_ball_chars)

lemma keyboard_frame:
  "characters (keyboard ks s) = characters s"
  "current_char (keyboard ks s) = current_char s"
  "last_switch (keyboard ks s) = last_switch s"
  "state (keyboard ks s) = state s"
  "queue (keyboard ks s) = queue s"
  by (simp_all add: keyboard_def Let_def)

lemma keyboard_moves:
  "move_dx (keyboard ks s) = move_dx s + keyboard_dx ks"
  "move_dy (keyboard ks s) = move_dy s + keyboard_dy ks"
  by (simp_all add: keyboard_def keyboard_dx_def keyboard_dy_def Let_def)

lemma switch_character_ok:
  "characters s \<noteq> [] \<Longrightarrow>
   switch_character now s =
     Inr (s\<lparr>current_char := (current_char s + 1) mod length (characters s), last_switch := now\<rparr>)"
  by (simp add: switch_character_def)

lemma process_sample_eq:
  "characters s \<noteq> [] \<Longrightarrow>
   process_sample now p s =
     Inr (if (btn p = Some 1 \<or> \<bar>az p\<bar> > SHAKE_THRESHOLD) \<and> now - last_switch s > SWITCH_DEBOUNCE
          then s\<lparr>move_dx := sensor_dx (ax p), move_dy := sensor_dy (ay p),
                 current_char := (current_char s + 1) mod length (characters s),
                 last_switch := now\<rparr>
          else s\<lparr>move_dx := sensor_dx (ax p), move_dy := sensor_dy (ay p)\<rparr>)"
  by (simp add: process_sample_def button_switch_def shake_switch_def button_trigger_def
      shake_trigger_def switch_character_def Let_def)

lemma serial_input_ok:
  assumes "characters s \<noteq> []" "current_char s < length (characters s)"
  shows "\<exists>t. serial_input now s = Inr t \<and> characters t = characters s \<and>
           current_char t < length (characters s)"
  using assms
  by (auto simp: serial_input_def get_latest_def process_sample_eq Let_def split: option.splits)

lemma reader_run_frame:
  "characters (reader_run raws s) = characters s"
  "current_char (reader_run raws s) = current_char s"
  "last_switch (reader_run raws s) = last_switch s"
  "state (reader_run raws s) = state s"
  "move_dx (reader_run raws s) = move_dx s"
  "move_dy (reader_run raws s) = move_dy s"
  by (simp_all add: reader_run_def)

lemma tick_char_ok:
  assumes "length (characters s) = 3" "current_char s < 3"
  shows "\<exists>t. tick inp s = Inr t \<and> length (characters t) = 3 \<and> current_char t < 3"
proof -
  let ?s1 = "reader_run (t_arrived inp) (handle_events (t_events inp) s)"
  have c1: "characters ?s1 = characters s" "current_char ?s1 = current_char s"
    by (simp_all add: reader_run_frame handle_events_frame)
  then have "characters ?s1 \<noteq> []" "current_char ?s1 < length (characters ?s1)"
    using assms by auto
  from serial_input_ok[OF this, of "t_now inp"]
  obtain s2 where s2: "serial_input (t_now inp) ?s1 = Inr s2"
    "characters s2 = characters s" "current_char s2 < 3"
    using c1 assms by auto
  let ?s3 = "keyboard (t_keys inp) s2"
  have b: "before_update inp s = Inr ?s3" by (simp add: before_update_def s2)
  have k: "length (characters ?s3) = 3" "current_char ?s3 < 3"
    using s2 assms by (simp_all add: keyboard_frame)
  show ?thesis
    using b k by (simp add: tick_def update_game_def update_play_chars)
qed

lemma run_char_ok:
  "length (characters s) = 3 \<Longrightarrow> current_char s < 3 \<Longrightarrow>
   \<exists>t. run inps s = Inr t \<and> length (characters t) = 3 \<and> current_char t < 3"
proof (induction inps arbitrary: s)
  case Nil
  then show ?case by simp
next
  case (Cons inp inps)
  from tick_char_ok[OF Cons.prems, of inp]
  obtain s' where s': "tick inp s = Inr s'" "length (characters s') = 3" "current_char s' < 3"
    by blast
  from Cons.IH[OF s'(2,3)] s'(1) Cons.prems show ?case by auto
qed

lemma main_init_chars:
  "characters (main_init rd) = base_characters" "current_char (main_init rd) = 0"
  by (simp_all add: main_init_def init_game_frame)

text \<open>
  Claim C10. After initialisation the current character index is 0 and the character
  list has three entries; after any sequence of ticks the loop has raised no error,
  the list still has three entries and the index is 0, 1 or 2; a switch moves the
  index to the next one and from the last index back to 0.
\<close>

theorem current_char_in_bounds:
  "current_char (main_init rd) = 0 \<and>
   length (characters (main_init rd)) = 3 \<and>
   (\<exists>t. run inps (main_init rd) = Inr t \<and> length (characters t) = 3 \<and>
        current_char t \<in> {0, 1, 2}) \<and>
   (length (characters s) = 3 \<and> current_char s \<in> {0, 1, 2} \<longrightarrow>
      (\<exists>t. switch_character now s = Inr t \<and> current_char t \<in> {0, 1, 2} \<and>
           length (characters t) = 3 \<and>
           current_char t = (if current_char s = 2 then 0 else current_char s + 1)))"
proof (intro conjI)
  show i0: "current_char (main_init rd) = 0" by (simp add: main_init_chars)
  show i1: "length (characters (main_init rd)) = 3"
    by (simp add: main_init_chars base_characters_def)
  from run_char_ok[OF i1, of inps] i0
  obtain t where "run inps (main_init rd) = Inr t" "length (characters t) = 3" "current_char t < 3"
    by auto
  then show "\<exists>t. run inps (main_init rd) = Inr t \<and> length (characters t) = 3 \<and>
        current_char t \<in> {0, 1, 2}"
    by auto
  show "length (characters s) = 3 \<and> current_char s \<in> {0, 1, 2} \<longrightarrow>
      (\<exists>t. switch_character now s = Inr t \<and> current_char t \<in> {0, 1, 2} \<and>
           length (characters t) = 3 \<and>
           current_char t = (if current_char s = 2 then 0 else current_char s + 1))"
    by (auto simp: switch_character_def)
qed

theorem current_char_in_bounds_witness:
  "length (characters ((main_init special_round)\<lparr>current_char := 2\<rparr>)) = 3 \<and>
   current_char ((main_init special_round)\<lparr>current_char := 2\<rparr>) \<in> {0, 1, 2} \<and>
   (\<exists>t. switch_character 1 ((main_init special_round)\<lparr>current_char := 2\<rparr>) = Inr t \<and>
        current_char t = 0) \<and>
   (\<exists>t. run [] (main_init special_round) = Inr t \<and> current_char t \<in> {0, 1, 2})"
  using current_char_in_bounds[of special_round "[]" "(main_init special_round)\<lparr>current_char := 2\<rparr>" 1]
  by (simp add: main_init_chars base_characters_def) blast

section \<open>The telemetry queue\<close>

text \<open>
  Claim C3. The claim says that once a line has been consumed no later call of
  \<open>get_latest\<close> returns a line pushed before it. On the code, after the reader has
  pushed two lines, the first call returns the second line and the next call returns
  the first one, which was pushed earlier.
\<close>

theorem get_latest_returns_older_line:
  "fst (get_latest (reader_push ''2,0,0'' (reader_push ''1,0,0'' []))) = Some ''2,0,0'' \<and>
   fst (get_latest (snd (get_latest (reader_push ''2,0,0'' (reader_push ''1,0,0'' []))))) =
     Some ''1,0,0''"
  by (simp add: get_latest_def reader_push_def deque_append_def strip_def is_space_def
      QUEUE_MAXLEN_def)

section \<open>Gesture thresholds\<close>

lemma process_sample_moves:
  "process_sample now p s = Inr t \<Longrightarrow>
   move_dx t = sensor_dx (ax p) \<and> move_dy t = sensor_dy (ay p)"
  by (auto simp: process_sample_def button_switch_def shake_switch_def switch_character_def
      Let_def split: if_splits sum.splits)

text \<open>
  Claim C9. For a processed sample, ax above 2000 gives a horizontal sensor delta of
  +BALL_SPEED (so does 2001), ax below -2000 gives -BALL_SPEED (so does -2001), and
  any ax with absolute value at most 2000 gives 0; ay above 2000 gives a vertical delta
  of -BALL_SPEED (up), ay below -2000 gives +BALL_SPEED (down), otherwise 0. These are
  the deltas the state holds after the sample is processed.
\<close>

theorem sensor_thresholds:
  "sensor_dx 2001 = BALL_SPEED \<and> sensor_dx (- 2001) = - BALL_SPEED \<and> BALL_SPEED = 5 \<and>
   (a > 2000 \<longrightarrow> sensor_dx a = 5) \<and>
   (a < - 2000 \<longrightarrow> sensor_dx a = - 5) \<and>
   (\<bar>a\<bar> \<le> 2000 \<longrightarrow> sensor_dx a = 0) \<and>
   (a > 2000 \<longrightarrow> sensor_dy a = - 5) \<and>
   (a < - 2000 \<longrightarrow> sensor_dy a = 5) \<and>
   (\<bar>a\<bar> \<le> 2000 \<longrightarrow> sensor_dy a = 0) \<and>
   (process_sample now p s = Inr t \<longrightarrow>
      move_dx t = sensor_dx (ax p) \<and> move_dy t = sensor_dy (ay p))"
  using process_sample_moves[of now p s t]
  by (auto simp: sensor_dx_def sensor_dy_def config_defs)


theorem sensor_thresholds_witness:
  "(3000::int) > 2000 \<and> sensor_dx 3000 = 5 \<and> sensor_dy 3000 = - 5 \<and>
   (- 3000::int) < - 2000 \<and> sensor_dx (- 3000) = - 5 \<and> sensor_dy (- 3000) = 5 \<and>
   \<bar>2000::int\<bar> \<le> 2000 \<and> sensor_dx 2000 = 0 \<and> sensor_dy 2000 = 0 \<and>
   process_sample 1 \<lparr>ax = 2001, ay = - 2001, az = 0, btn = None\<rparr> (main_init special_round) =
     Inr ((main_init special_round)\<lparr>move_dx := 5, move_dy := 5\<rparr>) \<and>
   move_dx ((main_init special_round)\<lparr>move_dx := 5, move_dy := 5\<rparr>) = sensor_dx 2001"
proof -
  let ?p = "\<lparr>ax = 2001, ay = - 2001, az = 0, btn = None\<rparr>"
  let ?t = "(main_init special_round)\<lparr>move_dx := 5, move_dy := 5\<rparr>"
  have run: "process_sample 1 ?p (main_init special_round) = Inr ?t"
    by (simp add: process_sample_def button_switch_def shake_switch_def button_trigger_def
        shake_trigger_def sensor_dx_def sensor_dy_def config_defs)
  note a = sensor_thresholds[of 3000 1 ?p "main_init special_round" ?t]
  note b = sensor_thresholds[of "- 3000" 1 ?p "main_init special_round" ?t]
  note c = sensor_thresholds[of 2000 1 ?p "main_init special_round" ?t]
  show ?thesis using a b c run by simp
qed

section \<open>Pause and resume\<close>

lemma serial_input_round:
  "serial_input now s = Inr t \<Longrightarrow> same_round s t \<and> state t = state s"
  by (auto simp: serial_input_def get_latest_def process_sample_def button_switch_def
      shake_switch_def switch_character_def same_round_def Let_def
      split: option.splits if_splits sum.splits)

lemma keyboard_round: "same_round s (keyboard ks s)"
  by (simp add: same_round_def keyboard_def Let_def)

lemma reader_run_round: "same_round s (reader_run raws s)"
  by (simp add: same_round_def reader_run_def)

lemma same_round_trans: "same_round s t \<Longrightarrow> same_round t u \<Longrightarrow> same_round s u"
  by (simp add: same_round_def)

lemma before_update_no_events:
  assumes "t_events inp = []" "before_update inp s = Inr t"
  shows "same_round s t \<and> state t = state s"
proof -
  from assms obtain s2 where s2: "serial_input (t_now inp) (reader_run (t_arrived inp) s) = Inr s2"
    and t: "t = keyboard (t_keys inp) s2"
    by (auto simp: before_update_def handle_events_def split: sum.splits)
  from serial_input_round[OF s2] have "same_round (reader_run (t_arrived inp) s) s2"
    "state s2 = state s" by (simp_all add: reader_run_frame)
  then show ?thesis
    using t reader_run_round[of s] keyboard_round[of s2] same_round_trans
    by (metis keyboard_frame(4))
qed

lemma before_update_one_event:
  assumes "t_events inp = [e]" "before_update inp s = Inr t"
  shows "same_round (handle_event e s) t \<and> state t = state (handle_event e s)"
proof -
  let ?s1 = "handle_event e s"
  from assms obtain s2 where s2: "serial_input (t_now inp) (reader_run (t_arrived inp) ?s1) = Inr s2"
    and t: "t = keyboard (t_keys inp) s2"
    by (auto simp: before_update_def handle_events_def split: sum.splits)
  from serial_input_round[OF s2] have "same_round (reader_run (t_arrived inp) ?s1) s2"
    "state s2 = state ?s1" by (simp_all add: reader_run_frame)
  then show ?thesis
    using t reader_run_round[of ?s1] keyboard_round[of s2] same_round_trans
    by (metis keyboard_frame(4))
qed


lemma round_timer_frame:
  "power_active (round_timer now s) = power_active s"
  "power_ends_at (round_timer now s) = power_ends_at s"
  "start_time (round_timer now s) = start_time s"
  "score (round_timer now s) = score s"
  "ball_x (round_timer now s) = ball_x s"
  "ball_y (round_timer now s) = ball_y s"
  "coin_x (round_timer now s) = coin_x s"
  "coin_y (round_timer now s) = coin_y s"
  "coin_special (round_timer now s) = coin_special s"
  "obstacles (round_timer now s) = obstacles s"
  by (simp_all add: round_timer_def game_over_def Let_def)

lemma update_obstacles_frame:
  "power_active (update_obstacles now s) = power_active s"
  "power_ends_at (update_obstacles now s) = power_ends_at s"
  "start_time (update_obstacles now s) = start_time s"
  "score (update_obstacles now s) = score s"
  "ball_x (update_obstacles now s) = ball_x s"
  "ball_y (update_obstacles now s) = ball_y s"
  "coin_x (update_obstacles now s) = coin_x s"
  "coin_y (update_obstacles now s) = coin_y s"
  "coin_special (update_obstacles now s) = coin_special s"
  "obstacles (update_obstacles now s) = map obstacle_update (obstacles s)"
  by (simp_all add: update_obstacles_eq game_over_def)

lemma move_ball_frame:
  "power_active (move_ball s) = power_active s"
  "power_ends_at (move_ball s) = power_ends_at s"
  "start_time (move_ball s) = start_time s"
  "score (move_ball s) = score s"
  "state (move_ball s) = state s"
  "coin_x (move_ball s) = coin_x s"
  "coin_y (move_ball s) = coin_y s"
  "coin_special (move_ball s) = coin_special s"
  "obstacles (move_ball s) = obstacles s"
  by (simp_all add: move_ball_def Let_def)

lemma collect_coin_frame:
  "start_time (collect_coin now c s) = start_time s"
  "state (collect_coin now c s) = state s"
  "ball_x (collect_coin now c s) = ball_x s"
  "ball_y (collect_coin now c s) = ball_y s"
  "obstacles (collect_coin now c s) = obstacles s"
  by (simp_all add: collect_coin_def spawn_coin_def set_cur_radius_def)

lemma power_timeout_frame:
  "start_time (power_timeout now s) = start_time s"
  "state (power_timeout now s) = state s"
  "score (power_timeout now s) = score s"
  "ball_x (power_timeout now s) = ball_x s"
  "ball_y (power_timeout now s) = ball_y s"
  "coin_x (power_timeout now s) = coin_x s"
  "coin_y (power_timeout now s) = coin_y s"
  "coin_special (power_timeout now s) = coin_special s"
  "obstacles (power_timeout now s) = obstacles s"
  by (simp_all add: power_timeout_def set_cur_radius_def)


lemma update_play_timer:
  "now - start_time s \<ge> GAME_DURATION \<Longrightarrow> state (update_play now c s) = GAMEOVER"
  by (simp add: update_play_def round_timer_def game_over_def Let_def update_obstacles_frame
      power_timeout_frame collect_coin_frame move_ball_frame)

lemma power_after_timeout:
  "power_active (power_timeout now s) \<Longrightarrow> now < power_ends_at (power_timeout now s)"
  by (auto simp: power_timeout_def set_cur_radius_def split: if_splits)

lemma power_ends_collect:
  "power_ends_at (collect_coin now c s) = power_ends_at s \<or>
   power_ends_at (collect_coin now c s) = now + POWERUP_DURATION"
  by (simp add: collect_coin_def spawn_coin_def set_cur_radius_def)

lemma power_timeout_ends: "power_ends_at (power_timeout now s) = power_ends_at s"
  by (simp add: power_timeout_def set_cur_radius_def)

lemma update_play_power:
  assumes "power_ends_at s \<le> now" "power_active (update_play now c s)"
  shows "power_ends_at (update_play now c s) = now + POWERUP_DURATION"
proof -
  let ?c = "collect_coin now c (move_ball s)"
  have a: "power_active (power_timeout now ?c)"
    using assms(2) by (simp add: update_play_def round_timer_frame update_obstacles_frame)
  have e: "power_ends_at (update_play now c s) = power_ends_at ?c"
    by (simp add: update_play_def round_timer_frame update_obstacles_frame power_timeout_ends)
  from power_after_timeout[OF a] have "now < power_ends_at ?c"
    by (simp add: power_timeout_ends)
  with power_ends_collect[of now c "move_ball s"] assms(1) e show ?thesis
    by (auto simp: move_ball_frame)
qed

text \<open>
  Claim C8. The pause key in Play gives Pause and in Pause gives Play, and changes
  nothing else. A tick in which the game is paused, or becomes paused, runs no
  gameplay update: score, ball, coin, obstacles, start time, power state and radii are
  unchanged. The deadlines are absolute: a tick that resumes 60 seconds or more after
  the round started ends the round, and a power-up whose deadline passed during the
  pause is not active after the resuming tick unless that tick collected a new one.
\<close>

theorem pause_keeps_round_state:
  "(state s = PLAY \<longrightarrow> handle_event (KEYDOWN K_p, rd) s = s\<lparr>state := PAUSE\<rparr>) \<and>
   (state s = PAUSE \<longrightarrow> handle_event (KEYDOWN K_p, rd) s = s\<lparr>state := PLAY\<rparr>) \<and>
   (state s = PLAY \<and> t_events inp = [(KEYDOWN K_p, rd)] \<and> tick inp s = Inr t \<longrightarrow>
      state t = PAUSE \<and> same_round s t) \<and>
   (state s = PAUSE \<and> t_events inp = [] \<and> tick inp s = Inr t \<longrightarrow>
      state t = PAUSE \<and> same_round s t) \<and>
   (state s = PAUSE \<and> t_events inp = [(KEYDOWN K_p, rd)] \<and> tick inp s = Inr t \<and>
      t_now inp - start_time s \<ge> 60 \<longrightarrow> state t = GAMEOVER) \<and>
   (state s = PAUSE \<and> t_events inp = [(KEYDOWN K_p, rd)] \<and> tick inp s = Inr t \<and>
      power_ends_at s \<le> t_now inp \<and> power_active t \<longrightarrow>
      power_ends_at t = t_now inp + 6)"
proof (intro conjI impI)
  show "handle_event (KEYDOWN K_p, rd) s = s\<lparr>state := PAUSE\<rparr>" if "state s = PLAY"
    using that by (simp add: handle_event_def)
  show "handle_event (KEYDOWN K_p, rd) s = s\<lparr>state := PLAY\<rparr>" if "state s = PAUSE"
    using that by (simp add: handle_event_def)
next
  assume a: "state s = PLAY \<and> t_events inp = [(KEYDOWN K_p, rd)] \<and> tick inp s = Inr t"
  then obtain u where u: "before_update inp s = Inr u"
    by (auto simp: tick_def split: sum.splits)
  from before_update_one_event[OF _ u, of "(KEYDOWN K_p, rd)"] a
  have r: "same_round (s\<lparr>state := PAUSE\<rparr>) u" "state u = PAUSE"
    by (simp_all add: handle_event_def)
  then have "t = u" using a u by (simp add: tick_def)
  with r show "state t = PAUSE" "same_round s t" by (simp_all add: same_round_def)
next
  assume a: "state s = PAUSE \<and> t_events inp = [] \<and> tick inp s = Inr t"
  then obtain u where u: "before_update inp s = Inr u"
    by (auto simp: tick_def split: sum.splits)
  from before_update_no_events[OF _ u] a have r: "same_round s u" "state u = PAUSE" by simp_all
  then have "t = u" using a u by (simp add: tick_def)
  with r show "state t = PAUSE" "same_round s t" by simp_all
next
  assume a: "state s = PAUSE \<and> t_events inp = [(KEYDOWN K_p, rd)] \<and> tick inp s = Inr t \<and>
      t_now inp - start_time s \<ge> 60"
  then obtain u where u: "before_update inp s = Inr u"
    by (auto simp: tick_def split: sum.splits)
  from before_update_one_event[OF _ u, of "(KEYDOWN K_p, rd)"] a
  have r: "same_round (s\<lparr>state := PLAY\<rparr>) u" "state u = PLAY"
    by (simp_all add: handle_event_def)
  then have t: "t = update_play (t_now inp) (t_coin inp) u"
    using a u by (auto simp: tick_def update_game_def split: if_splits)
  have "start_time u = start_time s" using r(1) by (simp add: same_round_def)
  then show "state t = GAMEOVER"
    using a t update_play_timer[where s = u and now = "t_now inp" and c = "t_coin inp"] by (simp add: GAME_DURATION_def)
next
  assume a: "state s = PAUSE \<and> t_events inp = [(KEYDOWN K_p, rd)] \<and> tick inp s = Inr t \<and>
      power_ends_at s \<le> t_now inp \<and> power_active t"
  then obtain u where u: "before_update inp s = Inr u"
    by (auto simp: tick_def split: sum.splits)
  from before_update_one_event[OF _ u, of "(KEYDOWN K_p, rd)"] a
  have r: "same_round (s\<lparr>state := PLAY\<rparr>) u" "state u = PLAY"
    by (simp_all add: handle_event_def)
  then have t: "t = update_play (t_now inp) (t_coin inp) u"
    using a u by (auto simp: tick_def update_game_def split: if_splits)
  have "power_ends_at u = power_ends_at s" using r(1) by (simp add: same_round_def)
  then show "power_ends_at t = t_now inp + 6"
    using a t update_play_power[where s = u and now = "t_now inp" and c = "t_coin inp"] by (simp add: POWERUP_DURATION_def)
qed

section \<open>Evaluation on concrete inputs\<close>

lemmas eval_defs =
  tick_def before_update_def handle_events_def handle_event_def reader_run_def
  serial_input_def get_latest_def keyboard_def update_game_def update_play_def
  move_ball_def collect_coin_def coin_touched_def power_timeout_def update_obstacles_def
  round_timer_def game_over_def obstacle_hit_def closest_dist_def closest_x_def closest_y_def
  obstacle_update_def spawn_obstacle_def spawn_coin_def init_game_def main_init_def
  base_characters_def cur_radius_def set_cur_radius_def euclid_def to_int_def rect_defs
  config_defs far_obstacle_def special_round_def plain_round_def no_keys_def far_coin_def
  Let_def

lemma upt3: "[0..<3] = [0, 1, 2]"
  by (simp add: upt_rec)

lemma sqrt_lt_int: "0 < r \<Longrightarrow> (sqrt (real_of_int n) < real_of_int r) = (n < r * r)"
proof -
  assume r: "0 < r"
  have "(sqrt (real_of_int n) < real_of_int r) =
        (sqrt (real_of_int n) < sqrt (real_of_int (r * r)))"
    using r by (simp add: real_sqrt_mult)
  also have "\<dots> = (real_of_int n < real_of_int (r * r))" by (rule real_sqrt_less_iff)
  also have "\<dots> = (n < r * r)" by (rule of_int_less_iff)
  finally show ?thesis .
qed

lemma paused_chars:
  "length (characters paused_state) = 3" "current_char paused_state < 3"
  "length (characters playing_state) = 3" "current_char playing_state < 3"
  by (simp_all add: paused_state_def playing_state_def main_init_chars base_characters_def)

theorem pause_keeps_round_state_witness:
  "state playing_state = PLAY \<and> state paused_state = PAUSE \<and>
   handle_event (KEYDOWN K_p, plain_round) playing_state = playing_state\<lparr>state := PAUSE\<rparr> \<and>
   handle_event (KEYDOWN K_p, plain_round) paused_state = paused_state\<lparr>state := PLAY\<rparr> \<and>
   (\<exists>t. tick pause_input playing_state = Inr t \<and> state t = PAUSE \<and> same_round playing_state t) \<and>
   (\<exists>t. tick idle_input paused_state = Inr t \<and> state t = PAUSE \<and> same_round paused_state t) \<and>
   t_now resume_input - start_time paused_state \<ge> 60 \<and>
   power_ends_at paused_state \<le> t_now resume_input \<and>
   (\<exists>t. tick resume_input paused_state = Inr t \<and> state t = GAMEOVER \<and> power_active t \<and>
        power_ends_at t = 1076)"
proof -
  have s1: "state playing_state = PLAY" by (simp add: playing_state_def)
  have s2: "state paused_state = PAUSE" by (simp add: paused_state_def)
  have e1: "t_events pause_input = [(KEYDOWN K_p, plain_round)]" by (simp add: pause_input_def)
  have e2: "t_events idle_input = []" by (simp add: idle_input_def)
  have e3: "t_events resume_input = [(KEYDOWN K_p, plain_round)]" by (simp add: resume_input_def)
  have n3: "t_now resume_input = 1070" by (simp add: resume_input_def)
  have st: "start_time paused_state = 1000" "power_ends_at paused_state = 0"
    by (simp_all add: paused_state_def main_init_def init_game_def spawn_coin_def
        special_round_def)
  obtain t1 where t1: "tick pause_input playing_state = Inr t1"
    using tick_char_ok[OF paused_chars(3,4)] by blast
  obtain t2 where t2: "tick idle_input paused_state = Inr t2"
    using tick_char_ok[OF paused_chars(1,2)] by blast
  obtain t3 where t3: "tick resume_input paused_state = Inr t3"
    using tick_char_ok[OF paused_chars(1,2)] by blast
  have "power_active (projr (tick resume_input paused_state))"
    by (simp add: resume_input_def paused_state_def eval_defs upt3)
  then have pa: "power_active t3" by (simp add: t3)
  note a = pause_keeps_round_state[of playing_state plain_round pause_input t1]
  note b = pause_keeps_round_state[of paused_state plain_round idle_input t2]
  note c = pause_keeps_round_state[of paused_state plain_round resume_input t3]
  have r1: "handle_event (KEYDOWN K_p, plain_round) playing_state = playing_state\<lparr>state := PAUSE\<rparr>"
    "state t1 = PAUSE \<and> same_round playing_state t1"
    using a s1 e1 t1 by simp_all
  have r2: "handle_event (KEYDOWN K_p, plain_round) paused_state = paused_state\<lparr>state := PLAY\<rparr>"
    "state t2 = PAUSE \<and> same_round paused_state t2"
    using b s2 e2 t2 by simp_all
  have r3: "state t3 = GAMEOVER" "power_ends_at t3 = 1076"
    using c s2 e3 t3 n3 st pa by simp_all
  show ?thesis
    using s1 s2 r1 r2 r3 t1 t2 t3 pa n3 st by simp
qed

section \<open>Coin collection\<close>










section \<open>End of the round\<close>














section \<open>Debounced character switch\<close>

lemma process_sample_switch:
  assumes "length (characters s) = 3" "process_sample now p s = Inr t"
  shows "switch_eligible p \<and> now - last_switch s > 1 / 2 \<longrightarrow>
           current_char t = (current_char s + 1) mod 3 \<and> last_switch t = now"
    and "\<not> (switch_eligible p \<and> now - last_switch s > 1 / 2) \<longrightarrow>
           current_char t = current_char s \<and> last_switch t = last_switch s"
    and "length (characters t) = 3"
proof -
  have ne: "characters s \<noteq> []" using assms(1) by auto
  show "switch_eligible p \<and> now - last_switch s > 1 / 2 \<longrightarrow>
           current_char t = (current_char s + 1) mod 3 \<and> last_switch t = now"
    using assms process_sample_eq[OF ne, of now p]
    by (auto simp: switch_eligible_def SWITCH_DEBOUNCE_def)
  show "\<not> (switch_eligible p \<and> now - last_switch s > 1 / 2) \<longrightarrow>
           current_char t = current_char s \<and> last_switch t = last_switch s"
    using assms process_sample_eq[OF ne, of now p]
    by (auto simp: switch_eligible_def SWITCH_DEBOUNCE_def)
  show "length (characters t) = 3"
    using assms process_sample_eq[OF ne, of now p] by (auto split: if_splits)
qed

text \<open>
  Claim C7, as amended. Of two switch-eligible samples processed less than 0.5 seconds
  apart, at most one changes the character: when the first comes more than 0.5 seconds
  after the last successful switch it is the one that switches (the index advances by
  one modulo 3 and the debounce timer is set to its time) and the second does nothing;
  when the first is inside the debounce interval it does nothing, and the second
  switches only if it is itself more than 0.5 seconds after the last successful
  switch. When the button trigger fires, the flag \<open>switched\<close> is set and the shake
  test leaves the state alone: the index advances by exactly one.
\<close>

theorem debounce_at_most_one:
  "(length (characters s) = 3 \<and> switch_eligible p1 \<and> switch_eligible p2 \<and>
    t2 - t1 < 1 / 2 \<and>
    process_sample t1 p1 s = Inr s1 \<and> process_sample t2 p2 s1 = Inr s2 \<longrightarrow>
      (t1 - last_switch s > 1 / 2 \<longrightarrow>
         current_char s1 = (current_char s + 1) mod 3 \<and> current_char s1 \<noteq> current_char s \<and>
         last_switch s1 = t1 \<and> current_char s2 = current_char s1 \<and> last_switch s2 = t1) \<and>
      (\<not> t1 - last_switch s > 1 / 2 \<longrightarrow>
         current_char s1 = current_char s \<and> last_switch s1 = last_switch s \<and>
         (if t2 - last_switch s > 1 / 2
          then current_char s2 = (current_char s + 1) mod 3 \<and> last_switch s2 = t2
          else current_char s2 = current_char s \<and> last_switch s2 = last_switch s))) \<and>
   (button_trigger now p s \<and> button_switch now p s = Inr sw \<longrightarrow>
      snd sw \<and> shake_switch now p sw = Inr (fst sw) \<and>
      process_sample now p s = Inr ((fst sw)\<lparr>move_dx := sensor_dx (ax p), move_dy := sensor_dy (ay p)\<rparr>) \<and>
      current_char (fst sw) = (current_char s + 1) mod length (characters s) \<and>
      last_switch (fst sw) = now)"
proof (intro conjI impI)
  assume a: "length (characters s) = 3 \<and> switch_eligible p1 \<and> switch_eligible p2 \<and>
    t2 - t1 < 1 / 2 \<and>
    process_sample t1 p1 s = Inr s1 \<and> process_sample t2 p2 s1 = Inr s2"
  then have l: "length (characters s) = 3" and r1: "process_sample t1 p1 s = Inr s1"
    and r2: "process_sample t2 p2 s1 = Inr s2" by simp_all
  note f = process_sample_switch[OF l r1]
  note g = process_sample_switch[OF f(3) r2]
  {
    assume b: "t1 - last_switch s > 1 / 2"
    then have x: "current_char s1 = (current_char s + 1) mod 3" "last_switch s1 = t1"
      using f(1) a by simp_all
    then have "\<not> (switch_eligible p2 \<and> t2 - last_switch s1 > 1 / 2)" using a by simp
    then have y: "current_char s2 = current_char s1" "last_switch s2 = last_switch s1"
      using g(2) by simp_all
    show "current_char s1 = (current_char s + 1) mod 3" by (rule x(1))
    show "current_char s1 \<noteq> current_char s" using x(1) by presburger
    show "last_switch s1 = t1" by (rule x(2))
    show "current_char s2 = current_char s1" by (rule y(1))
    show "last_switch s2 = t1" using y(2) x(2) by simp
  }
  {
    assume b: "\<not> t1 - last_switch s > 1 / 2"
    then have x: "current_char s1 = current_char s" "last_switch s1 = last_switch s"
      using f(2) by simp_all
    show "current_char s1 = current_char s" by (rule x(1))
    show "last_switch s1 = last_switch s" by (rule x(2))
    show "if t2 - last_switch s > 1 / 2
          then current_char s2 = (current_char s + 1) mod 3 \<and> last_switch s2 = t2
          else current_char s2 = current_char s \<and> last_switch s2 = last_switch s"
      using g(1) g(2) x a by simp
  }
next
  assume a: "button_trigger now p s \<and> button_switch now p s = Inr sw"
  then have sw: "sw = (s\<lparr>current_char := (current_char s + 1) mod length (characters s),
      last_switch := now\<rparr>, True)"
    by (auto simp: button_switch_def switch_character_def split: if_splits)
  show "snd sw" by (simp add: sw)
  show "shake_switch now p sw = Inr (fst sw)" by (simp add: sw shake_switch_def)
  show "current_char (fst sw) = (current_char s + 1) mod length (characters s)" by (simp add: sw)
  show "last_switch (fst sw) = now" by (simp add: sw)
  show "process_sample now p s =
      Inr ((fst sw)\<lparr>move_dx := sensor_dx (ax p), move_dy := sensor_dy (ay p)\<rparr>)"
    using a
    by (auto simp: sw process_sample_def button_switch_def button_trigger_def shake_switch_def
        switch_character_def Let_def split: if_splits)
qed


lemma main_init_last_switch: "last_switch (main_init rd) = 0"
  by (simp add: main_init_def init_game_frame)

lemmas switch_eval_defs = main_init_last_switch
  process_sample_def button_switch_def shake_switch_def button_trigger_def shake_trigger_def
  switch_character_def sensor_dx_def sensor_dy_def config_defs main_init_chars
  base_characters_def switched_state_def shake_sample_def press_shake_sample_def
  switch_eligible_def Let_def

text \<open>
  The claim as stated asks for exactly one change for every such pair. After a switch
  at time 1000, the two shakes at 1000.1 and 1000.2 are switch-eligible and 0.1 seconds
  apart, and neither changes the character.
\<close>

theorem debounce_counterexample:
  "switch_eligible shake_sample \<and> (1000 + 2 / 10) - (1000 + 1 / 10) < (1 / 2 :: real) \<and>
   process_sample 1000 shake_sample (main_init special_round) = Inr switched_state \<and>
   process_sample (1000 + 1 / 10) shake_sample switched_state = Inr switched_state \<and>
   process_sample (1000 + 2 / 10) shake_sample switched_state = Inr switched_state"
  by (simp add: switch_eval_defs)

theorem debounce_at_most_one_witness:
  "length (characters (main_init special_round)) = 3 \<and> switch_eligible shake_sample \<and>
   (1000 + 2 / 10) - 1000 < (1 / 2 :: real) \<and>
   1000 - last_switch (main_init special_round) > 1 / 2 \<and>
   process_sample 1000 shake_sample (main_init special_round) = Inr switched_state \<and>
   process_sample (1000 + 2 / 10) shake_sample switched_state = Inr switched_state \<and>
   current_char (main_init special_round) = 0 \<and> current_char switched_state = 1 \<and>
   last_switch switched_state = 1000 \<and>
   \<not> (1000 + 3 / 10) - last_switch switched_state > 1 / 2 \<and>
   process_sample (1000 + 3 / 10) shake_sample switched_state = Inr switched_state \<and>
   process_sample (1000 + 6 / 10) shake_sample switched_state =
     Inr (switched_state\<lparr>current_char := 2, last_switch := 1000 + 6 / 10\<rparr>) \<and>
   button_trigger 1000 press_shake_sample (main_init special_round) \<and>
   button_switch 1000 press_shake_sample (main_init special_round) =
     Inr ((main_init special_round)\<lparr>current_char := 1, last_switch := 1000\<rparr>, True) \<and>
   process_sample 1000 press_shake_sample (main_init special_round) = Inr switched_state"
proof -
  let ?i = "main_init special_round"
  let ?s2 = "switched_state\<lparr>current_char := 2, last_switch := 1000 + 6 / 10\<rparr>"
  let ?sw = "(?i\<lparr>current_char := 1, last_switch := 1000\<rparr>, True)"
  have h: "length (characters ?i) = 3" "switch_eligible shake_sample"
    "(1000 + 2 / 10) - 1000 < (1 / 2 :: real)" "1000 - last_switch ?i > 1 / 2"
    "length (characters switched_state) = 3"
    "\<not> (1000 + 3 / 10) - last_switch switched_state > 1 / 2"
    "(1000 + 6 / 10) - (1000 + 3 / 10) < (1 / 2 :: real)"
    "(1000 + 6 / 10) - last_switch switched_state > 1 / 2"
    by (simp_all add: switch_eval_defs)
  have p: "process_sample 1000 shake_sample ?i = Inr switched_state"
    "process_sample (1000 + 2 / 10) shake_sample switched_state = Inr switched_state"
    "process_sample (1000 + 3 / 10) shake_sample switched_state = Inr switched_state"
    "process_sample (1000 + 6 / 10) shake_sample switched_state = Inr ?s2"
    by (simp_all add: switch_eval_defs)
  have b: "button_trigger 1000 press_shake_sample ?i"
    "button_switch 1000 press_shake_sample ?i = Inr ?sw"
    by (simp_all add: switch_eval_defs)
  note a1 = debounce_at_most_one[of ?i shake_sample shake_sample "1000 + 2 / 10" 1000
      switched_state switched_state 1000 press_shake_sample ?sw]
  note a2 = debounce_at_most_one[of switched_state shake_sample shake_sample "1000 + 6 / 10"
      "1000 + 3 / 10" switched_state ?s2 1000 press_shake_sample ?sw]
  have r1: "current_char switched_state = (current_char ?i + 1) mod 3 \<and>
      last_switch switched_state = 1000"
    using a1 h p by simp
  have r2: "current_char ?s2 = (current_char switched_state + 1) mod 3"
    using a2 h p by simp
  have r3: "process_sample 1000 press_shake_sample ?i =
      Inr ((fst ?sw)\<lparr>move_dx := sensor_dx (ax press_shake_sample),
                      move_dy := sensor_dy (ay press_shake_sample)\<rparr>)"
    using a1 b by blast
  have c0: "current_char ?i = 0" by (simp add: main_init_chars)
  have r4: "process_sample 1000 press_shake_sample ?i = Inr switched_state"
    using r3 c0 by (simp add: switch_eval_defs)
  show ?thesis using h p b r1 r2 r4 c0 by simp
qed

end
